theory Spec2Isabelle
  imports Main "HOL-Library.Word"
begin

unbundle bit_operations_syntax

section \<open>Bytes, characters and the library routines the module calls\<close>

type_synonym byte = "8 word"

text \<open>
  C strings are modelled as \<^typ>\<open>string\<close> (the characters before the terminating NUL),
  \<open>unsigned char\<close> buffers as lists of \<^typ>\<open>byte\<close>.
\<close>

definition byte_of_char :: "char \<Rightarrow> byte" where
  "byte_of_char c = of_nat (of_char c)"

text \<open>
  \<open>apr_isdigit\<close>, \<open>apr_isalnum\<close> and \<open>apr_isspace\<close> (APR, \<open>apr_lib.h\<close>) in the C locale.
\<close>

definition apr_isdigit :: "char \<Rightarrow> bool" where
  "apr_isdigit c = (c \<in> set ''0123456789'')"

definition apr_isalnum :: "char \<Rightarrow> bool" where
  "apr_isalnum c =
     (c \<in> set ''0123456789abcdefghijklmnopqrstuvwxyzABCDEFGHIJKLMNOPQRSTUVWXYZ'')"

definition apr_isspace :: "char \<Rightarrow> bool" where
  "apr_isspace c = (c \<in> set [CHR '' '', CHR 0x09, CHR 0x0A, CHR 0x0B, CHR 0x0C, CHR 0x0D])"

text \<open>
  \<open>apr_atoi64(buf)\<close> is \<open>apr_strtoi64(buf, NULL, 10)\<close>: the decimal value of the leading
  digits, saturated at \<open>INT64_MAX\<close>. Every call in the two source files is on a string
  whose characters have all been checked with \<open>apr_isdigit\<close>, so the white space and sign
  that \<open>strtol\<close> would skip never occur and are not modelled.
\<close>

definition digit_value :: "char \<Rightarrow> int" where
  "digit_value c = of_char c - 48"

definition apr_atoi64 :: "string \<Rightarrow> int" where
  "apr_atoi64 buf =
     min (foldl (\<lambda>acc c. 10 * acc + digit_value c) 0 (takeWhile apr_isdigit buf))
         9223372036854775807"

text \<open>
  \<open>apr_strtok(str, " ", &last)\<close>: skip leading separators; \<open>NULL\<close> if nothing is left;
  otherwise the token runs up to the next separator, which is overwritten with NUL, and
  \<open>last\<close> points behind it. The result is the token and the new value of \<open>last\<close>.
\<close>

definition apr_strtok :: "string \<Rightarrow> (string \<times> string) option" where
  "apr_strtok str =
     (let s = dropWhile (\<lambda>c. c = CHR '' '') str
      in if s = [] then None
         else Some (takeWhile (\<lambda>c. c \<noteq> CHR '' '') s,
                    drop 1 (dropWhile (\<lambda>c. c \<noteq> CHR '' '') s)))"

text \<open>
  \<open>0 == apr_strnatcmp(token, keyword)\<close> for a keyword without digits and white space:
  the natural-order comparison skips white space at every position of either string and
  compares the remaining characters one by one.
\<close>

definition strnatcmp_eq :: "string \<Rightarrow> string \<Rightarrow> bool" where
  "strnatcmp_eq token keyword = (filter (\<lambda>c. \<not> apr_isspace c) token = keyword)"

text \<open>
  \<open>printf\<close> with \<open>%6.6u\<close>: the decimal digits of an unsigned number, padded with zeros on
  the left to at least six digits.
\<close>

fun decimal :: "nat \<Rightarrow> string" where
  "decimal n =
     (if n < 10 then [''0123456789'' ! n]
      else decimal (n div 10) @ [''0123456789'' ! (n mod 10)])"

declare decimal.simps [simp del]

definition fmt_6u :: "32 word \<Rightarrow> string" where
  "fmt_6u n = (let d = decimal (unat n) in replicate (6 - length d) CHR ''0'' @ d)"

text \<open>
  C integer division truncates towards zero.
\<close>

definition c_div :: "int \<Rightarrow> int \<Rightarrow> int" where
  "c_div a b = sgn a * sgn b * (\<bar>a\<bar> div \<bar>b\<bar>)"

section \<open>HMAC-SHA1\<close>

text \<open>
  Modelled from the spec: \<open>hmac_sha1\<close> is declared in \<open>hmac.h\<close> and implemented in
  \<open>hmac.c\<close> / \<open>sha1.c\<close>, none of which is part of the two source files. The spec
  (section 4.1) calls it ``a keyed hash (HMAC over SHA-1) ... producing a 20-byte MAC''.
  The definitions below follow FIPS 180 (SHA-1) and RFC 2104 (HMAC). SHA-1 works on 32-bit
  quantities; they are kept as natural numbers with the reduction modulo \<open>2^32\<close> written
  out. The byte counts are explicit arguments, as in the C signature
  \<open>hmac_sha1(key, keyLength, data, dataLength, result, resultLength)\<close>.
\<close>

type_synonym sha1_state = "nat \<times> nat \<times> nat \<times> nat \<times> nat"

definition add32 :: "nat \<Rightarrow> nat \<Rightarrow> nat" where
  "add32 x y = (x + y) mod 4294967296"

definition rotl32 :: "nat \<Rightarrow> nat \<Rightarrow> nat" where
  "rotl32 n x = (x * 2 ^ n) mod 4294967296 + x div 2 ^ (32 - n)"

fun block_words :: "byte list \<Rightarrow> nat list" where
  "block_words (a # b # c # d # bs) =
     (unat a * 16777216 + unat b * 65536 + unat c * 256 + unat d) # block_words bs"
| "block_words bs = []"

text \<open>
  The message schedule is kept in reverse: the head of the list is \<open>W[t-1]\<close>, so
  \<open>W[t-3]\<close>, \<open>W[t-8]\<close>, \<open>W[t-14]\<close> and \<open>W[t-16]\<close> are at positions 2, 7, 13, 15.
\<close>

fun expand :: "nat \<Rightarrow> nat list \<Rightarrow> nat list" where
  "expand n ws =
     (if n = 0 then ws
      else expand (n - 1) (rotl32 1 (ws ! 2 XOR ws ! 7 XOR ws ! 13 XOR ws ! 15) # ws))"

declare expand.simps [simp del]

definition sha1_f :: "nat \<Rightarrow> nat \<Rightarrow> nat \<Rightarrow> nat \<Rightarrow> nat" where
  "sha1_f t b c d =
     (if t < 20 then (b AND c) OR ((b XOR 4294967295) AND d)
      else if t < 40 then b XOR c XOR d
      else if t < 60 then (b AND c) OR (b AND d) OR (c AND d)
      else b XOR c XOR d)"

definition sha1_k :: "nat \<Rightarrow> nat" where
  "sha1_k t =
     (if t < 20 then 0x5A827999 else if t < 40 then 0x6ED9EBA1
      else if t < 60 then 0x8F1BBCDC else 0xCA62C1D6)"

fun rounds :: "nat \<Rightarrow> nat list \<Rightarrow> sha1_state \<Rightarrow> sha1_state" where
  "rounds t [] s = s"
| "rounds t (w # ws) (a, b, c, d, e) =
     rounds (t + 1) ws
       (add32 (add32 (add32 (add32 (rotl32 5 a) (sha1_f t b c d)) e) w) (sha1_k t),
        a, rotl32 30 b, c, d)"

definition compress :: "sha1_state \<Rightarrow> byte list \<Rightarrow> sha1_state" where
  "compress h blk =
     (case h of (h0, h1, h2, h3, h4) \<Rightarrow>
        (case rounds 0 (rev (expand 64 (rev (block_words blk)))) h of
           (a, b, c, d, e) \<Rightarrow> (add32 h0 a, add32 h1 b, add32 h2 c, add32 h3 d, add32 h4 e)))"

function sha1_blocks :: "sha1_state \<Rightarrow> byte list \<Rightarrow> sha1_state" where
  "sha1_blocks h bs =
     (if bs = [] then h else sha1_blocks (compress h (take 64 bs)) (drop 64 bs))"
  by pat_completeness auto
termination
  by (relation "measure (\<lambda>(h, bs). length bs)") auto

declare sha1_blocks.simps [simp del]

definition word_bytes :: "nat \<Rightarrow> byte list" where
  "word_bytes w =
     [of_nat (w div 16777216), of_nat (w div 65536 mod 256),
      of_nat (w div 256 mod 256), of_nat (w mod 256)]"

definition sha1_pad :: "nat \<Rightarrow> byte list" where
  "sha1_pad n =
     [0x80] @ replicate ((119 - n mod 64) mod 64) 0 @
     [0, 0, 0, of_nat (8 * n div 4294967296 mod 256)] @ word_bytes (8 * n mod 4294967296)"

definition sha1 :: "byte list \<Rightarrow> nat \<Rightarrow> byte list" where
  "sha1 m n =
     (case sha1_blocks (0x67452301, 0xEFCDAB89, 0x98BADCFE, 0x10325476, 0xC3D2E1F0)
             (take n m @ sha1_pad n) of
        (a, b, c, d, e) \<Rightarrow>
          word_bytes a @ word_bytes b @ word_bytes c @ word_bytes d @ word_bytes e)"

definition hmac_sha1 :: "byte list \<Rightarrow> nat \<Rightarrow> byte list \<Rightarrow> nat \<Rightarrow> byte list" where
  "hmac_sha1 key key_len msg msg_len =
     (let k = (if key_len > 64 then sha1 key key_len else take key_len key);
          k64 = take 64 (k @ replicate 64 0)
      in sha1 (map (\<lambda>b. b XOR 0x5c) k64 @
               sha1 (map (\<lambda>b. b XOR 0x36) k64 @ take msg_len msg) (64 + msg_len)) 84)"

section \<open>Configuration and per-user records\<close>

text \<open>
  \<open>totp_auth_config_rec\<close>: the two directory paths of the module configuration, \<open>NULL\<close>
  until the directive is given.
\<close>

record totp_auth_config_rec =
  tokenDir :: "string option"
  stateDir :: "string option"

text \<open>
  \<open>totp_user_config\<close>. \<open>shared_key\<close> is a pointer that stays \<open>NULL\<close> until the secret
  line has been decoded. \<open>scratch_codes\<close> holds the first \<open>scratch_codes_count\<close> entries
  of the array of ten, so the counter is the length of the list.
\<close>

record totp_user_config =
  shared_key :: "byte list option"
  shared_key_len :: nat
  disallow_reuse :: bool
  window_size :: "8 word"
  rate_limit_count :: int
  rate_limit_seconds :: int
  scratch_codes :: "32 word list"

definition zero_user_config :: totp_user_config where
  "zero_user_config =
     \<lparr>shared_key = None, shared_key_len = 0, disallow_reuse = False, window_size = 0,
      rate_limit_count = 0, rate_limit_seconds = 0, scratch_codes = []\<rparr>"

text \<open>The bytes and the length handed to \<open>generate_totp_code\<close>.\<close>

definition key_bytes :: "totp_user_config \<Rightarrow> byte list" where
  "key_bytes cfg = (case shared_key cfg of None \<Rightarrow> [] | Some k \<Rightarrow> k)"

text \<open>
  A dereference of the \<open>NULL\<close> pointer, or a read behind the terminator of the line
  buffer, ends the run of the function; both are kept as values.
\<close>

datatype fault = Null_dereference | Read_past_terminator

text \<open>The messages written with \<open>ap_log_rerror\<close> / \<open>ap_log_perror\<close> by the loaders.\<close>

datatype field = Window_size | Rate_limit_count | Rate_limit_seconds | Scratch_code

datatype log_msg =
    Log_no_token_dir
  | Log_open_failed string
  | Log_invalid_char field char
  | Log_missing_value string
  | Log_unrecognized string
  | Log_comment string
  | Log_bad_secret
  | Log_scratch_skipped string

datatype line_result = Continue totp_user_config | Return_NULL | Crash fault

text \<open>
  The credential store: what \<open>ap_pcfg_openfile\<close> and the successive calls of
  \<open>ap_cfg_getline\<close> deliver for a path, namely nothing if the file cannot be opened, and
  otherwise its lines (leading and trailing white space removed, each shorter than
  \<open>MAX_STRING_LEN\<close>).
\<close>

type_synonym token_store = "string \<Rightarrow> string list option"

section \<open>The credential loader of the module: \<open>get_user_totp_config\<close>\<close>

text \<open>
  The validation loop that occurs four times,
  \<open>for (tmp = token; *tmp; ++tmp) if (!apr_isdigit(*tmp)) { log; token = NULL; }\<close>:
  one message for every character that is not a digit, and whether \<open>token\<close> survived.
\<close>

definition validate_digits :: "field \<Rightarrow> string \<Rightarrow> log_msg list \<times> bool" where
  "validate_digits f token =
     (map (Log_invalid_char f) (filter (\<lambda>c. \<not> apr_isdigit c) token),
      list_all apr_isdigit token)"

text \<open>
  One iteration of the \<open>while\<close> loop. \<open>base32_decode\<close> (\<open>base32.h\<close>) is not part of the
  sources and is a parameter: the decoded bytes, or nothing when it returns a negative
  count. \<open>&line[2]\<close> lies behind the terminator when the line is a single quote
  character. A directive keyword that is not followed by a value makes \<open>apr_strtok\<close>
  return \<open>NULL\<close>, which the validation loop dereferences.
\<close>

definition parse_line ::
  "(string \<Rightarrow> byte list option) \<Rightarrow> totp_user_config \<Rightarrow> string \<Rightarrow> log_msg list \<times> line_result"
where
  "parse_line base32_decode cfg line =
     (if line = [] then ([], Continue cfg)
      else if hd line = CHR 0x22 then
        (if length line < 2 then ([], Crash Read_past_terminator)
         else case apr_strtok (drop 2 line) of
           None \<Rightarrow> ([Log_comment line], Continue cfg)
         | Some (token, last0) \<Rightarrow>
             if strnatcmp_eq token ''DISALLOW_REUSE'' then
               ([], Continue (cfg\<lparr>disallow_reuse := True\<rparr>))
             else if strnatcmp_eq token ''WINDOW_SIZE'' then
               (case apr_strtok last0 of
                  None \<Rightarrow> ([], Crash Null_dereference)
                | Some (value, last1) \<Rightarrow>
                    (case validate_digits Window_size value of
                       (lg, True) \<Rightarrow>
                         (lg, Continue (cfg\<lparr>window_size :=
                                word_of_int (max 0 (min (apr_atoi64 value) 32))\<rparr>))
                     | (lg, False) \<Rightarrow> (lg @ [Log_missing_value line], Continue cfg)))
             else if strnatcmp_eq token ''RATE_LIMIT'' then
               (case apr_strtok last0 of
                  None \<Rightarrow> ([], Crash Null_dereference)
                | Some (count, last1) \<Rightarrow>
                    (let (lg1, cfg1) =
                       (case validate_digits Rate_limit_count count of
                          (lg, True) \<Rightarrow>
                            (lg, cfg\<lparr>rate_limit_count := max 0 (min (apr_atoi64 count) 5)\<rparr>)
                        | (lg, False) \<Rightarrow> (lg @ [Log_missing_value line], cfg))
                     in case apr_strtok last1 of
                          None \<Rightarrow> (lg1, Crash Null_dereference)
                        | Some (seconds, last2) \<Rightarrow>
                            (case validate_digits Rate_limit_seconds seconds of
                               (lg, True) \<Rightarrow>
                                 (lg1 @ lg, Continue (cfg1\<lparr>rate_limit_seconds :=
                                    max 30 (min (apr_atoi64 seconds) 300)\<rparr>))
                             | (lg, False) \<Rightarrow>
                                 (lg1 @ lg @ [Log_missing_value line],
                                  Continue (cfg1\<lparr>rate_limit_count := 0\<rparr>)))))
             else ([Log_unrecognized line], Continue cfg))
      else if shared_key cfg = None then
        (case base32_decode line of
           None \<Rightarrow> ([Log_bad_secret], Return_NULL)
         | Some key \<Rightarrow>
             ([], Continue (cfg\<lparr>shared_key := Some key, shared_key_len := length key\<rparr>)))
      else
        (case validate_digits Scratch_code line of
           (lg, ok) \<Rightarrow>
             if ok \<and> length (scratch_codes cfg) < 10 then
               (lg, Continue (cfg\<lparr>scratch_codes :=
                      scratch_codes cfg @ [word_of_int (apr_atoi64 line)]\<rparr>))
             else (lg @ [Log_scratch_skipped line], Continue cfg)))"

text \<open>
  The \<open>while\<close> loop over the lines. The result is the log and either a fault, or the
  returned pointer: \<open>NULL\<close> or the record.
\<close>

fun config_loop ::
  "(totp_user_config \<Rightarrow> string \<Rightarrow> log_msg list \<times> line_result) \<Rightarrow> totp_user_config \<Rightarrow>
   string list \<Rightarrow> log_msg list \<times> (fault + totp_user_config option)"
where
  "config_loop step cfg [] = ([], Inr (Some cfg))"
| "config_loop step cfg (line # rest) =
     (case step cfg line of
        (lg, Continue cfg') \<Rightarrow>
          (case config_loop step cfg' rest of (lg', r) \<Rightarrow> (lg @ lg', r))
      | (lg, Return_NULL) \<Rightarrow> (lg, Inr None)
      | (lg, Crash f) \<Rightarrow> (lg, Inl f))"

definition get_user_totp_config ::
  "(string \<Rightarrow> byte list option) \<Rightarrow> totp_auth_config_rec \<Rightarrow> token_store \<Rightarrow> string \<Rightarrow>
   log_msg list \<times> (fault + totp_user_config option)"
where
  "get_user_totp_config base32_decode conf store username =
     (case tokenDir conf of
        None \<Rightarrow> ([Log_no_token_dir], Inr None)
      | Some dir \<Rightarrow>
          (let config_filename = dir @ ''/'' @ username
           in case store config_filename of
                None \<Rightarrow> ([Log_open_failed config_filename], Inr None)
              | Some lines \<Rightarrow> config_loop (parse_line base32_decode) zero_user_config lines))"

section \<open>The credential loader of \<open>utils.c\<close>: \<open>totp_read_user_config\<close>\<close>

text \<open>
  Modelled from the spec: \<open>is_digit_str\<close> is declared in \<open>utils.h\<close>, which is not among
  the sources. From its use (\<open>err_char = is_digit_str(token); if (err_char) ...\<close>, the
  character being printed as the ``invalid character'') and the spec's ``non-digit value
  \<rightarrow> warn'': the first character of the string that is not a digit, or 0 (here
  \<open>None\<close>) when there is none.
\<close>

definition is_digit_str :: "string \<Rightarrow> char option" where
  "is_digit_str token =
     (case filter (\<lambda>c. \<not> apr_isdigit c) token of [] \<Rightarrow> None | c # cs \<Rightarrow> Some c)"

text \<open>
  One iteration of the loop of \<open>totp_read_user_config\<close>. The decoder here is
  \<open>apr_pdecode_base32\<close>, again a parameter. A missing value hands \<open>NULL\<close> to
  \<open>is_digit_str\<close>, taken to dereference it as the loop in \<open>get_user_totp_config\<close> does.
\<close>

definition read_line ::
  "(string \<Rightarrow> byte list option) \<Rightarrow> totp_user_config \<Rightarrow> string \<Rightarrow> log_msg list \<times> line_result"
where
  "read_line apr_pdecode_base32 cfg line =
     (if line = [] then ([], Continue cfg)
      else if hd line = CHR 0x22 then
        (if length line < 2 then ([], Crash Read_past_terminator)
         else case apr_strtok (drop 2 line) of
           None \<Rightarrow> ([Log_comment line], Continue cfg)
         | Some (token, last0) \<Rightarrow>
             if strnatcmp_eq token ''DISALLOW_REUSE'' then
               ([], Continue (cfg\<lparr>disallow_reuse := True\<rparr>))
             else if strnatcmp_eq token ''WINDOW_SIZE'' then
               (case apr_strtok last0 of
                  None \<Rightarrow> ([], Crash Null_dereference)
                | Some (value, last1) \<Rightarrow>
                    (case is_digit_str value of
                       Some err_char \<Rightarrow> ([Log_invalid_char Window_size err_char], Continue cfg)
                     | None \<Rightarrow>
                         ([], Continue (cfg\<lparr>window_size :=
                                word_of_int (max 0 (min (apr_atoi64 value) 32))\<rparr>))))
             else if strnatcmp_eq token ''RATE_LIMIT'' then
               (case apr_strtok last0 of
                  None \<Rightarrow> ([], Crash Null_dereference)
                | Some (count, last1) \<Rightarrow>
                    (let (lg1, cfg1) =
                       (case is_digit_str count of
                          Some err_char \<Rightarrow> ([Log_invalid_char Rate_limit_count err_char], cfg)
                        | None \<Rightarrow>
                            ([], cfg\<lparr>rate_limit_count := max 0 (min (apr_atoi64 count) 5)\<rparr>))
                     in case apr_strtok last1 of
                          None \<Rightarrow> (lg1, Crash Null_dereference)
                        | Some (seconds, last2) \<Rightarrow>
                            (case is_digit_str seconds of
                               Some err_char \<Rightarrow>
                                 (lg1 @ [Log_invalid_char Rate_limit_seconds err_char],
                                  Continue (cfg1\<lparr>rate_limit_count := 0\<rparr>))
                             | None \<Rightarrow>
                                 (lg1, Continue (cfg1\<lparr>rate_limit_seconds :=
                                    max 0 (min (apr_atoi64 seconds) 300)\<rparr>)))))
             else ([Log_unrecognized line], Continue cfg))
      else if shared_key cfg = None then
        (case apr_pdecode_base32 line of
           None \<Rightarrow> ([Log_bad_secret], Return_NULL)
         | Some key \<Rightarrow>
             ([], Continue (cfg\<lparr>shared_key := Some key, shared_key_len := length key\<rparr>)))
      else
        (case is_digit_str line of
           Some err_char \<Rightarrow> ([Log_invalid_char Scratch_code err_char], Continue cfg)
         | None \<Rightarrow>
             if length (scratch_codes cfg) < 10 then
               ([], Continue (cfg\<lparr>scratch_codes :=
                      scratch_codes cfg @ [word_of_int (apr_atoi64 line)]\<rparr>))
             else ([Log_scratch_skipped line], Continue cfg)))"

definition totp_read_user_config ::
  "(string \<Rightarrow> byte list option) \<Rightarrow> string \<Rightarrow> string \<Rightarrow> token_store \<Rightarrow>
   log_msg list \<times> (fault + totp_user_config option)"
where
  "totp_read_user_config apr_pdecode_base32 user token_dir store =
     (let config_filename = token_dir @ ''/'' @ user
      in case store config_filename of
           None \<Rightarrow> ([Log_open_failed config_filename], Inr None)
         | Some lines \<Rightarrow> config_loop (read_line apr_pdecode_base32) zero_user_config lines)"

section \<open>The code generator\<close>

text \<open>
  \<open>generate_totp_code(unsigned long challenge, unsigned char *secret, int secret_len)\<close>.
  The first loop, \<open>for (j = 8; j--; challenge >>= 8) challenge_data[j] = challenge;\<close>,
  stores the low byte of the challenge at index 7, the next at index 6, and so on.
\<close>

fun challenge_loop :: "nat \<Rightarrow> 64 word \<Rightarrow> byte list \<Rightarrow> byte list" where
  "challenge_loop j challenge challenge_data =
     (if j = 0 then challenge_data
      else challenge_loop (j - 1) (drop_bit 8 challenge)
             (challenge_data[j - 1 := ucast challenge]))"

declare challenge_loop.simps [simp del]

text \<open>
  The second loop, \<open>for (j = 0; j < 4; ++j) { totp_code <<= 8; totp_code |= hash[offset + j]; }\<close>.
\<close>

function truncate_loop :: "nat \<Rightarrow> byte list \<Rightarrow> nat \<Rightarrow> 32 word \<Rightarrow> 32 word" where
  "truncate_loop j hash offset totp_code =
     (if j < 4
      then truncate_loop (j + 1) hash offset (push_bit 8 totp_code OR ucast (hash ! (offset + j)))
      else totp_code)"
  by pat_completeness auto
termination
  by (relation "measure (\<lambda>(j, hash, offset, totp_code). 4 - j)") auto

declare truncate_loop.simps [simp del]

definition generate_totp_code :: "64 word \<Rightarrow> byte list \<Rightarrow> nat \<Rightarrow> 32 word" where
  "generate_totp_code challenge secret secret_len =
     (let challenge_data = challenge_loop 8 challenge (replicate 8 0);
          hash = hmac_sha1 secret secret_len challenge_data 8;
          offset = unat (hash ! 19 AND 0xF);
          totp_code = truncate_loop 0 hash offset 0
      in (totp_code AND 0x7FFFFFFF) mod 1000000)"

text \<open>
  The algorithm in the words of the spec (section 4.1), to be compared with the code:
  the time-step as 8 big-endian bytes, the MAC, the dynamic truncation.
\<close>

definition spec_be64 :: "64 word \<Rightarrow> byte list" where
  "spec_be64 T =
     [ucast (drop_bit 56 T), ucast (drop_bit 48 T), ucast (drop_bit 40 T), ucast (drop_bit 32 T),
      ucast (drop_bit 24 T), ucast (drop_bit 16 T), ucast (drop_bit 8 T), ucast T]"

definition spec_be32 :: "byte list \<Rightarrow> 32 word" where
  "spec_be32 bs =
     push_bit 24 (ucast (bs ! 0)) OR push_bit 16 (ucast (bs ! 1)) OR
     push_bit 8 (ucast (bs ! 2)) OR ucast (bs ! 3)"

definition spec_generate :: "byte list \<Rightarrow> nat \<Rightarrow> 64 word \<Rightarrow> 32 word" where
  "spec_generate secret secret_len T =
     (let mac = hmac_sha1 secret secret_len (spec_be64 T) 8;
          offset = unat (mac ! 19 AND 0x0F)
      in (spec_be32 (take 4 (drop offset mac)) AND 0x7FFFFFFF) mod 1000000)"

section \<open>The verification engine\<close>

datatype authn_status =
  AUTH_DENIED | AUTH_GRANTED | AUTH_USER_FOUND | AUTH_USER_NOT_FOUND | AUTH_GENERAL_ERROR

text \<open>
  The file system as far as the module touches it: the content of every existing file,
  and the paths at which creating a file fails for a reason other than the file being
  there already (missing directory, permissions).
\<close>

record filesystem =
  files :: "string \<Rightarrow> byte list option"
  unwritable :: "string set"

text \<open>
  What one request does besides returning: the call of the credential loader, every
  candidate code computed (with its offset from the current time-step), every scratch
  code compared (with its index), and every exclusive creation of a marker file.
\<close>

datatype event = Load string | Candidate int | Scratch nat | Create string

text \<open>
  \<open>get_timestamp\<close>: \<open>apr_time_now()\<close> is a signed 64-bit count of microseconds; the two
  divisions are C divisions; the result is converted to \<open>unsigned long\<close> (64 bits).
\<close>

definition get_timestamp :: "64 word \<Rightarrow> 64 word" where
  "get_timestamp apr_time_now = word_of_int (c_div (c_div (sint apr_time_now) 1000000) 30)"

definition hex_encode :: "byte list \<Rightarrow> nat \<Rightarrow> string" where
  "hex_encode data len =
     concat (map (\<lambda>b. [''0123456789abcdef'' ! unat (drop_bit 4 b),
                        ''0123456789abcdef'' ! unat (b AND 0xF)]) (take len data))"

text \<open>
  \<open>mark_code_invalid\<close>: \<open>apr_file_open\<close> with \<open>APR_FOPEN_CREATE | APR_FOPEN_EXCL\<close> on
  \<open>stateDir/user-cpassword\<close>; the new file is empty. The result is the return value, the
  file system afterwards and the events.
\<close>

definition code_filepath :: "string \<Rightarrow> string \<Rightarrow> string \<Rightarrow> string" where
  "code_filepath dir user password = dir @ ''/'' @ user @ ''-c'' @ password"

definition mark_code_invalid ::
  "totp_auth_config_rec \<Rightarrow> filesystem \<Rightarrow> string \<Rightarrow> string \<Rightarrow> bool \<times> filesystem \<times> event list"
where
  "mark_code_invalid conf fs user password =
     (case stateDir conf of
        None \<Rightarrow> (False, fs, [])
      | Some dir \<Rightarrow>
          (let path = code_filepath dir user password
           in if files fs path \<noteq> None \<or> path \<in> unwritable fs
              then (False, fs, [Create path])
              else (True, fs\<lparr>files := (files fs)(path \<mapsto> [])\<rparr>, [Create path])))"

text \<open>
  The loop over the window,
  \<open>for (i = -(window_size); i <= (window_size); ++i)\<close>, started at \<open>i\<close>. In
  \<open>timestamp + i\<close> the \<open>int\<close> is converted to \<open>unsigned long\<close>. On a match the marker
  decides; \<open>break\<close> leads to the final \<open>return AUTH_DENIED\<close>.
\<close>

function totp_loop ::
  "totp_auth_config_rec \<Rightarrow> string \<Rightarrow> string \<Rightarrow> 64 word \<Rightarrow> totp_user_config \<Rightarrow> 32 word \<Rightarrow>
   filesystem \<Rightarrow> int \<Rightarrow> authn_status \<times> filesystem \<times> event list"
where
  "totp_loop conf user password timestamp totp_config user_code fs i =
     (if i \<le> uint (window_size totp_config) then
        (let totp_code = generate_totp_code (timestamp + word_of_int i)
                           (key_bytes totp_config) (shared_key_len totp_config)
         in if totp_code = user_code then
              (case mark_code_invalid conf fs user password of
                 (True, fs', ev) \<Rightarrow> (AUTH_GRANTED, fs', Candidate i # ev)
               | (False, fs', ev) \<Rightarrow> (AUTH_DENIED, fs', Candidate i # ev))
            else
              (case totp_loop conf user password timestamp totp_config user_code fs (i + 1) of
                 (st, fs', ev) \<Rightarrow> (st, fs', Candidate i # ev)))
      else (AUTH_DENIED, fs, []))"
  by pat_completeness auto
termination
  by (relation "measure (\<lambda>(conf, user, password, timestamp, totp_config, user_code, fs, i).
                  nat (uint (window_size totp_config) + 1 - i))") auto

declare totp_loop.simps [simp del]

text \<open>
  The loop over the scratch codes, \<open>for (i = 0; i < scratch_codes_count; ++i)\<close>: the
  codes from index \<open>i\<close> on.
\<close>

fun scratch_loop ::
  "totp_auth_config_rec \<Rightarrow> string \<Rightarrow> string \<Rightarrow> 32 word \<Rightarrow> filesystem \<Rightarrow> nat \<Rightarrow> 32 word list \<Rightarrow>
   authn_status \<times> filesystem \<times> event list"
where
  "scratch_loop conf user password user_code fs i [] = (AUTH_DENIED, fs, [])"
| "scratch_loop conf user password user_code fs i (code # codes) =
     (if code = user_code then
        (case mark_code_invalid conf fs user password of
           (True, fs', ev) \<Rightarrow> (AUTH_GRANTED, fs', Scratch i # ev)
         | (False, fs', ev) \<Rightarrow> (AUTH_DENIED, fs', Scratch i # ev))
      else
        (case scratch_loop conf user password user_code fs (i + 1) codes of
           (st, fs', ev) \<Rightarrow> (st, fs', Scratch i # ev)))"

text \<open>
  \<open>authn_totp_check_password\<close>. The arguments besides user and password are what the
  function reads from its environment: the decoder, the module configuration, the
  credential store, \<open>apr_time_now()\<close> and the file system. The result is the returned
  status (or the fault of the loader), the file system afterwards and the events.
  \<open>strlen\<close> is the length of the string (passwords are far shorter than \<open>2^32\<close>).
\<close>

definition authn_totp_check_password ::
  "(string \<Rightarrow> byte list option) \<Rightarrow> totp_auth_config_rec \<Rightarrow> token_store \<Rightarrow> 64 word \<Rightarrow>
   filesystem \<Rightarrow> string \<Rightarrow> string \<Rightarrow> (fault + authn_status) \<times> filesystem \<times> event list"
where
  "authn_totp_check_password base32_decode conf store now fs user password =
     (let password_len = length password;
          timestamp = get_timestamp now
      in if \<not> list_all apr_isalnum user then (Inr AUTH_DENIED, fs, [])
         else if \<not> (password_len = 6 \<or> password_len = 8) then (Inr AUTH_DENIED, fs, [])
         else if \<not> list_all apr_isdigit password then (Inr AUTH_DENIED, fs, [])
         else
           (case snd (get_user_totp_config base32_decode conf store user) of
              Inl f \<Rightarrow> (Inl f, fs, [Load user])
            | Inr None \<Rightarrow> (Inr AUTH_DENIED, fs, [Load user])
            | Inr (Some totp_config) \<Rightarrow>
                (let user_code = (word_of_int (apr_atoi64 password) :: 32 word)
                 in if password_len = 6 then
                      (case totp_loop conf user password timestamp totp_config user_code fs
                              (- uint (window_size totp_config)) of
                         (st, fs', ev) \<Rightarrow> (Inr st, fs', Load user # ev))
                    else
                      (case scratch_loop conf user password user_code fs 0
                              (scratch_codes totp_config) of
                         (st, fs', ev) \<Rightarrow> (Inr st, fs', Load user # ev)))))"

text \<open>
  \<open>authn_totp_get_realm_hash\<close>. \<open>apr_md5\<close> is a parameter (a digest of
  \<open>APR_MD5_DIGESTSIZE = 16\<close> bytes). The result is the status, \<open>*rethash\<close> if it was
  assigned, and the events. The function has no access to the state directory.
\<close>

definition authn_totp_get_realm_hash ::
  "(string \<Rightarrow> byte list option) \<Rightarrow> (string \<Rightarrow> byte list) \<Rightarrow> totp_auth_config_rec \<Rightarrow> token_store \<Rightarrow>
   64 word \<Rightarrow> string \<Rightarrow> string \<Rightarrow> (fault + authn_status) \<times> string option \<times> event list"
where
  "authn_totp_get_realm_hash base32_decode apr_md5 conf store now user realm =
     (let timestamp = get_timestamp now
      in case snd (get_user_totp_config base32_decode conf store user) of
           Inl f \<Rightarrow> (Inl f, None, [Load user])
         | Inr None \<Rightarrow> (Inr AUTH_USER_NOT_FOUND, None, [Load user])
         | Inr (Some totp_config) \<Rightarrow>
             (let totp_code = generate_totp_code timestamp (key_bytes totp_config)
                                (shared_key_len totp_config);
                  pwstr = fmt_6u totp_code;
                  hashstr = user @ '':'' @ realm @ '':'' @ pwstr;
                  hash = apr_md5 hashstr
              in (Inr AUTH_USER_FOUND, Some (hex_encode hash 16), [Load user, Candidate 0])))"

section \<open>Evaluating SHA-1 on the published test vector\<close>

lemma replicate_unroll: "replicate n x = (if n = 0 then [] else x # replicate (n - 1) x)"
  by (cases n) simp_all

lemmas compress_eval =
  compress_def rotl32_def add32_def sha1_f_def sha1_k_def expand.simps

lemma hotp_compress_1:
  "compress (1732584193, 4023233417, 2562383102, 271733878, 3285377520)
     [7, 4, 5, 2, 3, 0, 1, 14, 15, 6, 7, 4, 5, 2, 3, 0, 1, 14, 15, 6, 54, 54, 54, 54, 54, 54, 54, 54, 54, 54, 54, 54, 54, 54, 54, 54, 54, 54, 54, 54, 54, 54, 54, 54, 54, 54, 54, 54, 54, 54, 54, 54, 54, 54, 54, 54, 54, 54, 54, 54, 54, 54, 54, 54] =
   (3418885260, 4120502956, 3183003698, 3667247555, 4167577637)"
  by (simp add: compress_eval)

lemma hotp_compress_2:
  "compress (3418885260, 4120502956, 3183003698, 3667247555, 4167577637)
     [0, 0, 0, 0, 0, 0, 0, 1, 128, 0, 0, 0, 0, 0, 0, 0, 0, 0, 0, 0, 0, 0, 0, 0, 0, 0, 0, 0, 0, 0, 0, 0, 0, 0, 0, 0, 0, 0, 0, 0, 0, 0, 0, 0, 0, 0, 0, 0, 0, 0, 0, 0, 0, 0, 0, 0, 0, 0, 0, 0, 0, 0, 2, 64] =
   (2923006674, 3845772892, 1570953884, 2321626177, 2537110156)"
  by (simp add: compress_eval)

lemma hotp_compress_3:
  "compress (1732584193, 4023233417, 2562383102, 271733878, 3285377520)
     [109, 110, 111, 104, 105, 106, 107, 100, 101, 108, 109, 110, 111, 104, 105, 106, 107, 100, 101, 108, 92, 92, 92, 92, 92, 92, 92, 92, 92, 92, 92, 92, 92, 92, 92, 92, 92, 92, 92, 92, 92, 92, 92, 92, 92, 92, 92, 92, 92, 92, 92, 92, 92, 92, 92, 92, 92, 92, 92, 92, 92, 92, 92, 92] =
   (2562571725, 1491106814, 2908544490, 985678603, 4262488101)"
  by (simp add: compress_eval)

lemma hotp_compress_4:
  "compress (2562571725, 1491106814, 2908544490, 985678603, 4262488101)
     [174, 57, 138, 210, 229, 57, 214, 92, 93, 162, 218, 156, 138, 97, 52, 65, 151, 57, 58, 140, 128, 0, 0, 0, 0, 0, 0, 0, 0, 0, 0, 0, 0, 0, 0, 0, 0, 0, 0, 0, 0, 0, 0, 0, 0, 0, 0, 0, 0, 0, 0, 0, 0, 0, 0, 0, 0, 0, 0, 0, 0, 0, 2, 160] =
   (1973717529, 3570131200, 1682868929, 964618868, 2049782699)"
  by (simp add: compress_eval)

section \<open>The code generator meets its description\<close>

lemma sha1_length: "length (sha1 m n) = 20"
  by (simp add: sha1_def word_bytes_def split: prod.splits)

lemma hmac_sha1_length: "length (hmac_sha1 key key_len msg msg_len) = 20"
  by (simp add: hmac_sha1_def Let_def sha1_length)

lemma challenge_loop_be64:
  "length d = 8 \<Longrightarrow> challenge_loop 8 c d = spec_be64 c"
proof -
  assume "length d = 8"
  then obtain d0 d1 d2 d3 d4 d5 d6 d7 where d: "d = [d0, d1, d2, d3, d4, d5, d6, d7]"
    by (auto simp: length_Suc_conv eval_nat_numeral)
  show ?thesis
    unfolding d spec_be64_def
    by (simp add: challenge_loop.simps eval_nat_numeral drop_bit_drop_bit)
qed

lemma truncate_loop_be32:
  "offset + 4 \<le> length hash \<Longrightarrow>
   truncate_loop 0 hash offset 0 = spec_be32 (take 4 (drop offset hash))"
  by (simp add: truncate_loop.simps spec_be32_def push_bit_or push_bit_push_bit or.assoc numeral_3_eq_3)

lemma offset_le: "unat ((b::byte) AND 0xF) \<le> 15"
  using word_and_le1 [of b 15] by (simp add: word_le_nat_alt)

lemma code_range: "unat ((x :: 32 word) mod 1000000) < 1000000"
  by (simp add: unat_mod)

lemma secret_bytes: "map byte_of_char ''12345678901234567890'' = [0x31,0x32,0x33,0x34,0x35,0x36,0x37,0x38,0x39,0x30,0x31,0x32,0x33,0x34,0x35,0x36,0x37,0x38,0x39,0x30]"
  by (simp add: byte_of_char_def)

lemma be64_1: "spec_be64 1 = [0,0,0,0,0,0,0,1]"
  by (simp add: spec_be64_def)

lemma hmac_vector:
  "hmac_sha1 [0x31,0x32,0x33,0x34,0x35,0x36,0x37,0x38,0x39,0x30,0x31,0x32,0x33,0x34,0x35,0x36,0x37,0x38,0x39,0x30] 20 [0,0,0,0,0,0,0,1] 8 =
   [117, 164, 138, 25, 212, 203, 225, 0, 100, 78, 138, 193, 57, 126, 234, 116, 122, 45, 51, 171]"
  unfolding hmac_sha1_def Let_def
  by (simp add: sha1_def sha1_pad_def word_bytes_def replicate_unroll sha1_blocks.simps
        hotp_compress_1 hotp_compress_2 hotp_compress_3 hotp_compress_4)

lemma trunc_vec: "(spec_be32 (take 4 (drop (unat ((171::byte) AND 0xF)) [117, 164, 138, 25, 212, 203, 225, 0, 100, 78, 138, 193, 57, 126, 234, 116, 122, 45, 51, 171])) AND 0x7FFFFFFF) mod 1000000 = 287082"
  by (simp add: spec_be32_def)


lemma generate_eq_spec:
  "generate_totp_code T secret secret_len = spec_generate secret secret_len T"
proof -
  let ?mac = "hmac_sha1 secret secret_len (spec_be64 T) 8"
  have "unat (?mac ! 19 AND 0xF) + 4 \<le> length ?mac"
    using offset_le [of "?mac ! 19"] by (simp add: hmac_sha1_length)
  then show ?thesis
    by (simp add: generate_totp_code_def spec_generate_def Let_def challenge_loop_be64
          truncate_loop_be32)
qed

lemma hotp_vector:
  "generate_totp_code 1 (map byte_of_char ''12345678901234567890'') 20 = 287082"
  unfolding generate_eq_spec spec_generate_def secret_bytes be64_1 hmac_vector Let_def
  by (simp add: spec_be32_def)

text \<open>
  Claim C4 (code generator). For every secret and every 64-bit time-step the result of
  \<open>generate_totp_code\<close> is a function of its arguments, lies in \<open>[0, 999999]\<close> and is
  what the spec describes: the MAC of the 8 big-endian bytes of the time-step keyed by the
  secret has 20 bytes, the offset \<open>MAC[19] & 0x0F\<close> leaves room for 4 bytes, and the code
  is those 4 bytes read big-endian, masked with \<open>0x7FFFFFFF\<close> and reduced modulo
  1,000,000. For the 20 ASCII bytes \<open>12345678901234567890\<close> and time-step 1 the code is
  287082.
\<close>

theorem generate_totp_code_correct:
  "unat (generate_totp_code T secret secret_len) \<le> 999999 \<and>
   generate_totp_code T secret secret_len = spec_generate secret secret_len T \<and>
   length (hmac_sha1 secret secret_len (spec_be64 T) 8) = 20 \<and>
   unat (hmac_sha1 secret secret_len (spec_be64 T) 8 ! 19 AND 0x0F) + 4 \<le> 20 \<and>
   generate_totp_code 1 (map byte_of_char ''12345678901234567890'') 20 = 287082"
proof -
  have "unat (generate_totp_code T secret secret_len) < 1000000"
    unfolding generate_totp_code_def Let_def by (rule code_range)
  moreover have "unat (hmac_sha1 secret secret_len (spec_be64 T) 8 ! 19 AND 0x0F) \<le> 15"
    by (rule offset_le)
  ultimately show ?thesis
    using generate_eq_spec hmac_sha1_length hotp_vector by simp
qed

end
